theory Spec2Isabelle
  imports Complex_Main
begin

section \<open>Command line arguments and errors\<close>

text \<open>
  The script \<^verbatim>\<open>query_data.py\<close> is a straight-line batch program: it checks its
  arguments, opens the output file, queries one remote service per major body, writes
  the rows, queries the small-body catalog once and prints statistics.  It is embedded
  as a function from the command line arguments and the answers of the two remote
  services to the trace of its observable actions and its outcome.
\<close>

datatype scenario = planets_and_moons | scenario1 | scenario2 | full

text \<open>The parsed arguments \<^verbatim>\<open>args.output\<close>, \<^verbatim>\<open>args.scenario\<close>, \<^verbatim>\<open>args.limit\<close>
  (\<open>None\<close> when \<^verbatim>\<open>--limit\<close> is absent).\<close>

record args =
  outfile :: string
  scenario :: scenario
  limit :: "int option"

datatype cell = CNone | CStr string | CInt int | CFloat real

type_synonym row = "cell list"

datatype error =
    ValueError string
  | RuntimeError string
  | KeyError cell
  | IndexError
  | HorizonsError
  | MalformedResponse

definition scenario_name :: "scenario \<Rightarrow> string" where
  "scenario_name sc = (case sc of
       planets_and_moons \<Rightarrow> ''planets_and_moons''
     | scenario1 \<Rightarrow> ''scenario1''
     | scenario2 \<Rightarrow> ''scenario2''
     | full \<Rightarrow> ''full'')"

subsection \<open>Decimal rendering of Python integers\<close>

function str_nat :: "nat \<Rightarrow> string" where
  "str_nat n = (if n < 10 then [''0123456789'' ! n]
                else str_nat (n div 10) @ [''0123456789'' ! (n mod 10)])"
  by pat_completeness auto
termination
  by (relation "measure id") auto

declare str_nat.simps [simp del]

definition str_int :: "int \<Rightarrow> string" where
  "str_int i = (if i < 0 then CHR ''-'' # str_nat (nat (- i)) else str_nat (nat i))"

text \<open>\<^verbatim>\<open>"{}".format(args.limit)\<close>: an absent limit prints as \<^verbatim>\<open>None\<close>.\<close>

definition format_limit :: "int option \<Rightarrow> string" where
  "format_limit l = (case l of None \<Rightarrow> ''None'' | Some i \<Rightarrow> str_int i)"

subsection \<open>Sanity check of the command line parameters\<close>

definition sanity_check :: "args \<Rightarrow> error + unit" where
  "sanity_check ar =
     (if scenario ar \<noteq> scenario2 \<and> limit ar \<noteq> None
      then Inl (ValueError ''-l/--limit may only be used with -s/--scenario scenario2'')
      else if scenario ar = scenario2 \<and> limit ar = None
      then Inl (ValueError ''-l/--limit must be provided for -s/--scenario scenario2'')
      else Inr ())"

section \<open>The catalog of planets, dwarf planets and moons\<close>

datatype body_id = IntId int | StrId string

record Body =
  name :: string
  orbit_class :: string
  central_body :: string
  mass :: real

definition Body :: "string \<Rightarrow> string \<Rightarrow> string \<Rightarrow> real \<Rightarrow> Body" where
  "Body n oc cb m = \<lparr>name = n, orbit_class = oc, central_body = cb, mass = m\<rparr>"

text \<open>The float literal \<^verbatim>\<open>m e+x\<close>.\<close>

definition sci :: "real \<Rightarrow> nat \<Rightarrow> real" where
  "sci m x = m * 10 ^ x"

text \<open>The dictionary literal, in insertion order (the order in which Python iterates it).\<close>

definition major_bodies_dict :: "(body_id \<times> Body) list" where
  "major_bodies_dict =
  [(IntId 199, Body ''Mercury'' ''PLA'' ''Sun'' (sci 3.301011 23)),
   (IntId 299, Body ''Venus'' ''PLA'' ''Sun'' (sci 4.867320 24)),
   (IntId 399, Body ''Earth'' ''PLA'' ''Sun'' (sci 5.972186 24)),
   (IntId 499, Body ''Mars'' ''PLA'' ''Sun'' (sci 6.416928 23)),
   (IntId 599, Body ''Jupiter'' ''PLA'' ''Sun'' (sci 1.898130 27)),
   (IntId 699, Body ''Saturn'' ''PLA'' ''Sun'' (sci 5.683191 26)),
   (IntId 799, Body ''Uranus'' ''PLA'' ''Sun'' (sci 8.681013 25)),
   (IntId 899, Body ''Neptune'' ''PLA'' ''Sun'' (sci 1.024096 26)),
   (StrId ''Ceres'', Body ''Ceres'' ''DWA'' ''Sun'' (sci 9.47 20)),
   (IntId 999, Body ''Pluto'' ''DWA'' ''Sun'' (sci 1.302933 22)),
   (IntId 136199, Body ''Eris'' ''DWA'' ''Sun'' (sci 1.671600 22)),
   (IntId 136108, Body ''Haumea'' ''DWA'' ''Sun'' (sci 4.006000 21)),
   (IntId 136472, Body ''Makemake'' ''DWA'' ''Sun'' (sci 3.100000 21)),
   (IntId 225088, Body ''Gonggong'' ''DWA'' ''Sun'' (sci 1.750000 21)),
   (IntId 50000, Body ''Quaoar'' ''DWA'' ''Sun'' (sci 1.400000 21)),
   (IntId 90377, Body ''Sedna'' ''DWA'' ''Sun'' (sci 1.194000 21)),
   (IntId 90482, Body ''Orcus'' ''DWA'' ''Sun'' (sci 6.348000 20)),
   (IntId 120347, Body ''Salacia'' ''DWA'' ''Sun'' (sci 4.922000 20)),
   (IntId 301, Body ''Luna'' ''SAT'' ''Earth'' (sci 7.345811 22)),
   (IntId 401, Body ''Phobos'' ''SAT'' ''Mars'' (sci 1.061919 16)),
   (IntId 402, Body ''Deimos'' ''SAT'' ''Mars'' (sci 1.440690 15)),
   (IntId 501, Body ''Io'' ''SAT'' ''Jupiter'' (sci 8.929676 22)),
   (IntId 502, Body ''Europa'' ''SAT'' ''Jupiter'' (sci 4.798588 22)),
   (IntId 503, Body ''Ganymede'' ''SAT'' ''Jupiter'' (sci 1.481483 23)),
   (IntId 504, Body ''Callisto'' ''SAT'' ''Jupiter'' (sci 1.075664 23)),
   (IntId 505, Body ''Amalthea'' ''SAT'' ''Jupiter'' (sci 2.465636 18)),
   (IntId 506, Body ''Himalia'' ''SAT'' ''Jupiter'' (sci 2.270693 18)),
   (IntId 507, Body ''Elara'' ''SAT'' ''Jupiter'' (sci 8.692277 17)),
   (IntId 508, Body ''Pasiphae'' ''SAT'' ''Jupiter'' (sci 2.997337 17)),
   (IntId 509, Body ''Sinope'' ''SAT'' ''Jupiter'' (sci 7.493342 16)),
   (IntId 510, Body ''Lysithea'' ''SAT'' ''Jupiter'' (sci 6.294407 16)),
   (IntId 511, Body ''Carme'' ''SAT'' ''Jupiter'' (sci 1.318828 17)),
   (IntId 512, Body ''Ananke'' ''SAT'' ''Jupiter'' (sci 2.997337 16)),
   (IntId 513, Body ''Leda'' ''SAT'' ''Jupiter'' (sci 1.094028 16)),
   (IntId 514, Body ''Thebe'' ''SAT'' ''Jupiter'' (sci 4.517042 17)),
   (IntId 515, Body ''Adrastea'' ''SAT'' ''Jupiter'' (sci 2.082622 15)),
   (IntId 516, Body ''Metis'' ''SAT'' ''Jupiter'' (sci 3.747221 16)),
   (IntId 517, Body ''Callirrhoe'' ''SAT'' ''Jupiter'' (sci 8.692277 14)),
   (IntId 518, Body ''Themisto'' ''SAT'' ''Jupiter'' (sci 6.893875 14)),
   (IntId 519, Body ''Megaclite'' ''SAT'' ''Jupiter'' (sci 2.098136 14)),
   (IntId 520, Body ''Taygete'' ''SAT'' ''Jupiter'' (sci 1.648535 14)),
   (IntId 521, Body ''Chaldene'' ''SAT'' ''Jupiter'' (sci 7.493342 13)),
   (IntId 522, Body ''Harpalyke'' ''SAT'' ''Jupiter'' (sci 1.198935 14)),
   (IntId 523, Body ''Kalyke'' ''SAT'' ''Jupiter'' (sci 1.948269 14)),
   (IntId 524, Body ''Iocaste'' ''SAT'' ''Jupiter'' (sci 1.948269 14)),
   (IntId 525, Body ''Erinome'' ''SAT'' ''Jupiter'' (sci 4.496005 13)),
   (IntId 526, Body ''Isonoe'' ''SAT'' ''Jupiter'' (sci 7.493342 13)),
   (IntId 527, Body ''Praxidike'' ''SAT'' ''Jupiter'' (sci 4.346138 14)),
   (IntId 528, Body ''Autonoe'' ''SAT'' ''Jupiter'' (sci 8.992011 13)),
   (IntId 529, Body ''Thyone'' ''SAT'' ''Jupiter'' (sci 8.992011 13)),
   (IntId 530, Body ''Hermippe'' ''SAT'' ''Jupiter'' (sci 8.992011 13)),
   (IntId 531, Body ''Aitne'' ''SAT'' ''Jupiter'' (sci 4.496005 13)),
   (IntId 532, Body ''Eurydome'' ''SAT'' ''Jupiter'' (sci 4.496005 13)),
   (IntId 533, Body ''Euanthe'' ''SAT'' ''Jupiter'' (sci 4.496005 13)),
   (IntId 534, Body ''Euporie'' ''SAT'' ''Jupiter'' (sci 1.498668 13)),
   (IntId 535, Body ''Orthosie'' ''SAT'' ''Jupiter'' (sci 1.498668 13)),
   (IntId 536, Body ''Sponde'' ''SAT'' ''Jupiter'' (sci 1.498668 13)),
   (IntId 537, Body ''Kale'' ''SAT'' ''Jupiter'' (sci 1.498668 13)),
   (IntId 538, Body ''Pasithee'' ''SAT'' ''Jupiter'' (sci 1.498668 13)),
   (IntId 539, Body ''Hegemone'' ''SAT'' ''Jupiter'' (sci 4.496005 13)),
   (IntId 540, Body ''Mneme'' ''SAT'' ''Jupiter'' (sci 1.498668 13)),
   (IntId 541, Body ''Aoede'' ''SAT'' ''Jupiter'' (sci 8.992011 13)),
   (IntId 542, Body ''Thelxinoe'' ''SAT'' ''Jupiter'' (sci 1.498668 13)),
   (IntId 543, Body ''Arche'' ''SAT'' ''Jupiter'' (sci 4.496005 13)),
   (IntId 544, Body ''Kallichore'' ''SAT'' ''Jupiter'' (sci 1.498668 13)),
   (IntId 545, Body ''Helike'' ''SAT'' ''Jupiter'' (sci 8.992011 13)),
   (IntId 546, Body ''Carpo'' ''SAT'' ''Jupiter'' (sci 4.496005 13)),
   (IntId 547, Body ''Eukelade'' ''SAT'' ''Jupiter'' (sci 8.992011 13)),
   (IntId 548, Body ''Cyllene'' ''SAT'' ''Jupiter'' (sci 1.498668 13)),
   (IntId 549, Body ''Kore'' ''SAT'' ''Jupiter'' (sci 1.498668 13)),
   (IntId 550, Body ''Herse'' ''SAT'' ''Jupiter'' (sci 1.498668 13)),
   (IntId 553, Body ''Dia'' ''SAT'' ''Jupiter'' (sci 5.520000 12)),
   (IntId 557, Body ''Eirene'' ''SAT'' ''Jupiter'' (sci 5.520000 12)),
   (IntId 558, Body ''Philophrosyne'' ''SAT'' ''Jupiter'' (sci 2.760000 12)),
   (IntId 560, Body ''Eupheme'' ''SAT'' ''Jupiter'' (sci 2.760000 12)),
   (IntId 562, Body ''Valetudo'' ''SAT'' ''Jupiter'' (sci 1.380000 12)),
   (IntId 565, Body ''Pandia'' ''SAT'' ''Jupiter'' (sci 4.140000 12)),
   (IntId 571, Body ''Ersa'' ''SAT'' ''Jupiter'' (sci 4.140000 12)),
   (IntId 601, Body ''Mimas'' ''SAT'' ''Saturn'' (sci 3.750950 19)),
   (IntId 602, Body ''Enceladus'' ''SAT'' ''Saturn'' (sci 1.080321 20)),
   (IntId 603, Body ''Tethys'' ''SAT'' ''Saturn'' (sci 6.174978 20)),
   (IntId 604, Body ''Dione'' ''SAT'' ''Saturn'' (sci 1.095490 21)),
   (IntId 605, Body ''Rhea'' ''SAT'' ''Saturn'' (sci 2.306492 21)),
   (IntId 606, Body ''Titan'' ''SAT'' ''Saturn'' (sci 1.345184 23)),
   (IntId 607, Body ''Hyperion'' ''SAT'' ''Saturn'' (sci 5.551031 18)),
   (IntId 608, Body ''Iapetus'' ''SAT'' ''Saturn'' (sci 1.805665 21)),
   (IntId 609, Body ''Phoebe'' ''SAT'' ''Saturn'' (sci 8.312297 18)),
   (IntId 610, Body ''Janus'' ''SAT'' ''Saturn'' (sci 1.896482 18)),
   (IntId 611, Body ''Epimetheus'' ''SAT'' ''Saturn'' (sci 5.262490 17)),
   (IntId 612, Body ''Helene'' ''SAT'' ''Saturn'' (sci 7.127989 15)),
   (IntId 613, Body ''Telesto'' ''SAT'' ''Saturn'' (sci 4.046405 15)),
   (IntId 614, Body ''Calypso'' ''SAT'' ''Saturn'' (sci 2.547736 15)),
   (IntId 615, Body ''Atlas'' ''SAT'' ''Saturn'' (sci 5.571944 15)),
   (IntId 616, Body ''Prometheus'' ''SAT'' ''Saturn'' (sci 1.610972 17)),
   (IntId 617, Body ''Pandora'' ''SAT'' ''Saturn'' (sci 1.391959 17)),
   (IntId 618, Body ''Pan'' ''SAT'' ''Saturn'' (sci 4.945606 15)),
   (IntId 619, Body ''Ymir'' ''SAT'' ''Saturn'' (sci 4.945606 15)),
   (IntId 620, Body ''Paaliaq'' ''SAT'' ''Saturn'' (sci 8.242676 15)),
   (IntId 621, Body ''Tarvos'' ''SAT'' ''Saturn'' (sci 2.697603 15)),
   (IntId 622, Body ''Ijiraq'' ''SAT'' ''Saturn'' (sci 1.198935 15)),
   (IntId 623, Body ''Suttungr'' ''SAT'' ''Saturn'' (sci 2.098136 14)),
   (IntId 624, Body ''Kiviuq'' ''SAT'' ''Saturn'' (sci 3.297071 15)),
   (IntId 625, Body ''Mundilfari'' ''SAT'' ''Saturn'' (sci 2.098136 14)),
   (IntId 626, Body ''Albiorix'' ''SAT'' ''Saturn'' (sci 2.098136 16)),
   (IntId 627, Body ''Skathi'' ''SAT'' ''Saturn'' (sci 3.147204 14)),
   (IntId 628, Body ''Erriapus'' ''SAT'' ''Saturn'' (sci 7.643209 14)),
   (IntId 629, Body ''Siarnaq'' ''SAT'' ''Saturn'' (sci 3.896538 16)),
   (IntId 630, Body ''Thrymr'' ''SAT'' ''Saturn'' (sci 2.098136 14)),
   (IntId 631, Body ''Narvi'' ''SAT'' ''Saturn'' (sci 3.446937 14)),
   (IntId 632, Body ''Methone'' ''SAT'' ''Saturn'' (sci 8.992011 12)),
   (IntId 633, Body ''Pallene'' ''SAT'' ''Saturn'' (sci 3.297071 13)),
   (IntId 634, Body ''Polydeuces'' ''SAT'' ''Saturn'' (sci 4.496005 12)),
   (IntId 635, Body ''Daphnis'' ''SAT'' ''Saturn'' (sci 7.793076 13)),
   (IntId 636, Body ''Aegir'' ''SAT'' ''Saturn'' (sci 2.599000 14)),
   (IntId 637, Body ''Bebhionn'' ''SAT'' ''Saturn'' (sci 2.599000 14)),
   (IntId 638, Body ''Bergelmir'' ''SAT'' ''Saturn'' (sci 2.599000 14)),
   (IntId 639, Body ''Bestla'' ''SAT'' ''Saturn'' (sci 4.140000 14)),
   (IntId 640, Body ''Farbauti'' ''SAT'' ''Saturn'' (sci 1.495000 14)),
   (IntId 641, Body ''Fenrir'' ''SAT'' ''Saturn'' (sci 7.820000 13)),
   (IntId 642, Body ''Fornjot'' ''SAT'' ''Saturn'' (sci 8.280000 12)),
   (IntId 643, Body ''Hati'' ''SAT'' ''Saturn'' (sci 2.599000 14)),
   (IntId 644, Body ''Hyrrokkin'' ''SAT'' ''Saturn'' (sci 2.599000 14)),
   (IntId 645, Body ''Kari'' ''SAT'' ''Saturn'' (sci 2.599000 14)),
   (IntId 646, Body ''Loge'' ''SAT'' ''Saturn'' (sci 2.599000 14)),
   (IntId 647, Body ''Skoll'' ''SAT'' ''Saturn'' (sci 2.599000 14)),
   (IntId 648, Body ''Surtur'' ''SAT'' ''Saturn'' (sci 2.599000 14)),
   (IntId 649, Body ''Anthe'' ''SAT'' ''Saturn'' (sci 1.498668 12)),
   (IntId 650, Body ''Jarnsaxa'' ''SAT'' ''Saturn'' (sci 2.599000 14)),
   (IntId 651, Body ''Greip'' ''SAT'' ''Saturn'' (sci 2.599000 14)),
   (IntId 652, Body ''Tarqeq'' ''SAT'' ''Saturn'' (sci 2.599000 14)),
   (IntId 653, Body ''Aegaeon'' ''SAT'' ''Saturn'' (sci 5.994674 10)),
   (IntId 701, Body ''Ariel'' ''SAT'' ''Uranus'' (sci 1.250524 21)),
   (IntId 702, Body ''Umbriel'' ''SAT'' ''Uranus'' (sci 1.274945 21)),
   (IntId 703, Body ''Titania'' ''SAT'' ''Uranus'' (sci 3.400272 21)),
   (IntId 704, Body ''Oberon'' ''SAT'' ''Uranus'' (sci 3.076338 21)),
   (IntId 705, Body ''Miranda'' ''SAT'' ''Uranus'' (sci 6.471884 19)),
   (IntId 706, Body ''Cordelia'' ''SAT'' ''Uranus'' (sci 4.496005 16)),
   (IntId 707, Body ''Ophelia'' ''SAT'' ''Uranus'' (sci 5.395206 16)),
   (IntId 708, Body ''Bianca'' ''SAT'' ''Uranus'' (sci 9.291744 16)),
   (IntId 709, Body ''Cressida'' ''SAT'' ''Uranus'' (sci 3.431951 17)),
   (IntId 710, Body ''Desdemona'' ''SAT'' ''Uranus'' (sci 1.783415 17)),
   (IntId 711, Body ''Juliet'' ''SAT'' ''Uranus'' (sci 5.575047 17)),
   (IntId 712, Body ''Portia'' ''SAT'' ''Uranus'' (sci 1.681506 18)),
   (IntId 713, Body ''Rosalind'' ''SAT'' ''Uranus'' (sci 2.547736 17)),
   (IntId 714, Body ''Belinda'' ''SAT'' ''Uranus'' (sci 3.566831 17)),
   (IntId 715, Body ''Puck'' ''SAT'' ''Uranus'' (sci 2.893929 18)),
   (IntId 716, Body ''Caliban'' ''SAT'' ''Uranus'' (sci 2.997337 17)),
   (IntId 717, Body ''Sycorax'' ''SAT'' ''Uranus'' (sci 2.697603 18)),
   (IntId 718, Body ''Prospero'' ''SAT'' ''Uranus'' (sci 9.891212 16)),
   (IntId 719, Body ''Setebos'' ''SAT'' ''Uranus'' (sci 8.692277 16)),
   (IntId 720, Body ''Stephano'' ''SAT'' ''Uranus'' (sci 2.547736 16)),
   (IntId 721, Body ''Trinculo'' ''SAT'' ''Uranus'' (sci 4.645872 15)),
   (IntId 722, Body ''Francisco'' ''SAT'' ''Uranus'' (sci 8.392543 15)),
   (IntId 723, Body ''Margaret'' ''SAT'' ''Uranus'' (sci 6.294407 15)),
   (IntId 724, Body ''Ferdinand'' ''SAT'' ''Uranus'' (sci 6.294407 15)),
   (IntId 725, Body ''Perdita'' ''SAT'' ''Uranus'' (sci 1.800000 16)),
   (IntId 726, Body ''Mab'' ''SAT'' ''Uranus'' (sci 1.000000 15)),
   (IntId 727, Body ''Cupid'' ''SAT'' ''Uranus'' (sci 3.800000 15)),
   (IntId 801, Body ''Triton'' ''SAT'' ''Neptune'' (sci 2.140299 22)),
   (IntId 802, Body ''Nereid'' ''SAT'' ''Neptune'' (sci 3.087257 19)),
   (IntId 803, Body ''Naiad'' ''SAT'' ''Neptune'' (sci 1.278083 17)),
   (IntId 804, Body ''Thalassa'' ''SAT'' ''Neptune'' (sci 3.534274 17)),
   (IntId 805, Body ''Despina'' ''SAT'' ''Neptune'' (sci 1.748980 18)),
   (IntId 806, Body ''Galatea'' ''SAT'' ''Neptune'' (sci 2.845228 18)),
   (IntId 807, Body ''Larissa'' ''SAT'' ''Neptune'' (sci 3.818296 18)),
   (IntId 808, Body ''Proteus'' ''SAT'' ''Neptune'' (sci 3.870713 19)),
   (IntId 809, Body ''Halimede'' ''SAT'' ''Neptune'' (sci 8.992011 16)),
   (IntId 810, Body ''Psamathe'' ''SAT'' ''Neptune'' (sci 1.498668 16)),
   (IntId 811, Body ''Sao'' ''SAT'' ''Neptune'' (sci 8.992011 16)),
   (IntId 812, Body ''Laomedeia'' ''SAT'' ''Neptune'' (sci 8.992011 16)),
   (IntId 813, Body ''Neso'' ''SAT'' ''Neptune'' (sci 1.648535 17)),
   (IntId 814, Body ''Hippocamp'' ''SAT'' ''Neptune'' (sci 1.500000 16)),
   (IntId 901, Body ''Charon'' ''SAT'' ''Pluto'' (sci 1.586388 21)),
   (IntId 902, Body ''Nix'' ''SAT'' ''Pluto'' (sci 4.567048 16)),
   (IntId 903, Body ''Hydra'' ''SAT'' ''Pluto'' (sci 4.811065 16)),
   (IntId 904, Body ''Kerberos'' ''SAT'' ''Pluto'' (sci 1.663162 16)),
   (IntId 905, Body ''Styx'' ''SAT'' ''Pluto'' (sci 7.500000 15))]"

section \<open>Observable actions\<close>

text \<open>
  The run is observed through its actions, in the order in which they happen: lines
  printed, the output file opened, a row handed to a CSV writer (together with that
  writer's line terminator), a request to the Horizons service and the HTTP GET sent to
  the small-body database.  Elapsed times are not modelled: the two timing lines are
  recorded by their label only.
\<close>

datatype event =
    Print string
  | PrintElapsed string
  | PrintTable "(string \<times> int) list"
  | OpenFile string
  | WriteRow row string
  | HorizonsQuery body_id string
  | HttpGet string

fun is_network :: "event \<Rightarrow> bool" where
  "is_network (HorizonsQuery _ _) = True"
| "is_network (HttpGet _) = True"
| "is_network _ = False"

fun written :: "event list \<Rightarrow> (row \<times> string) list" where
  "written [] = []"
| "written (WriteRow r lt # es) = (r, lt) # written es"
| "written (_ # es) = written es"

section \<open>The remote services\<close>

text \<open>The seven columns read from the table returned by \<^verbatim>\<open>Horizons(...).elements()\<close>,
  the semi-major axis already converted to astronomical units.\<close>

record eph =
  eph_e :: real
  eph_a :: real
  eph_incl :: real
  eph_Omega :: real
  eph_w :: real
  eph_M :: real
  eph_datetime_jd :: real

text \<open>The answer to the HTTP GET: the status code and, when the body is a JSON object
  with a \<^verbatim>\<open>data\<close> array of rows, these rows.\<close>

record response =
  status_code :: int
  data :: "row list option"

text \<open>The environment of a run: the platform's \<^verbatim>\<open>os.linesep\<close> and the two services
  (a Horizons query that raises is \<open>None\<close>).\<close>

record env =
  linesep :: string
  horizons_elements :: "body_id \<Rightarrow> string \<Rightarrow> eph option"
  http_get :: "string \<Rightarrow> response"

section \<open>Major bodies\<close>

definition header :: row where
  "header = map CStr [''e'', ''a'', ''i'', ''om'', ''w'', ''ma'', ''epoch'', ''H'', ''albedo'',
     ''diameter'', ''class'', ''name'', ''mass'', ''central_body'']"

definition location_query :: "Body \<Rightarrow> string" where
  "location_query b =
     (if central_body b = ''Sun'' then ''@sun''
      else if central_body b = ''Earth'' then ''Geocentric''
      else central_body b @ '' Barycenter'')"

definition major_row :: "eph \<Rightarrow> Body \<Rightarrow> row" where
  "major_row ep b =
     [CFloat (eph_e ep), CFloat (eph_a ep), CFloat (eph_incl ep), CFloat (eph_Omega ep),
      CFloat (eph_w ep), CFloat (eph_M ep), CFloat (eph_datetime_jd ep),
      CStr '''', CStr '''', CStr '''',
      CStr (orbit_class b), CStr (name b), CFloat (mass b), CStr (central_body b)]"

text \<open>The loop over the catalog: one query per body; the first query that raises ends
  the run.  The accumulator is \<^verbatim>\<open>jpl_horizons_data\<close>.\<close>

fun query_horizons :: "env \<Rightarrow> (body_id \<times> Body) list \<Rightarrow> row list \<Rightarrow> event list \<times> (error + row list)" where
  "query_horizons en [] acc = ([], Inr acc)"
| "query_horizons en ((body, b) # rest) acc =
     (case horizons_elements en body (location_query b) of
        None \<Rightarrow> ([HorizonsQuery body (location_query b)], Inl HorizonsError)
      | Some ep \<Rightarrow>
          (case query_horizons en rest (acc @ [major_row ep b]) of
             (evs, res) \<Rightarrow> (HorizonsQuery body (location_query b) # evs, res)))"

text \<open>The limit, lowered by the number of major bodies and the Sun.\<close>

definition adjust_limit :: "int option \<Rightarrow> nat \<Rightarrow> error + int option" where
  "adjust_limit lmt n =
     (case lmt of
        None \<Rightarrow> Inr None
      | Some l \<Rightarrow>
          if l < int n + 1
          then Inl (ValueError (''-l/--limit ('' @ str_int l
                 @ '') must be at least as large as the number of planets and moons + 1 (''
                 @ ''accounting for the Sun) which is '' @ str_int (int n + 1) @ ''!''))
          else Inr (Some (l - (int n + 1))))"

section \<open>Small bodies\<close>

subsection \<open>The filter of scenario1\<close>

definition newline :: char where
  "newline = CHR 0x0A"

definition query :: string where
  \<open>query = [newline]
     @ ''            {'' @ [newline]
     @ ''                "AND": ['' @ [newline]
     @ ''                    { "AND" : [ "diameter|DF", "albedo|DF" ] },'' @ [newline]
     @ ''                    { "OR" : [ "class|NE|MBA", "diameter|GE|10" ] }'' @ [newline]
     @ ''                ]'' @ [newline]
     @ ''            }'' @ [newline]
     @ ''            ''\<close>

text \<open>\<^verbatim>\<open>string.whitespace\<close>: space, tab, line feed, carriage return, vertical tab,
  form feed.\<close>

definition whitespace :: string where
  "whitespace = [CHR '' '', CHR 0x09, CHR 0x0A, CHR 0x0D, CHR 0x0B, CHR 0x0C]"

definition minify :: "string \<Rightarrow> string" where
  "minify s = filter (\<lambda>c. c \<notin> set whitespace) s"

text \<open>\<^verbatim>\<open>urllib.parse.quote\<close> with its default \<^verbatim>\<open>safe='/'\<close>, on the bytes of the string:
  letters, digits and \<^verbatim>\<open>_.-~/\<close> stay, every other byte becomes \<^verbatim>\<open>%XX\<close> in upper-case
  hexadecimal.\<close>

definition always_safe :: string where
  "always_safe = ''ABCDEFGHIJKLMNOPQRSTUVWXYZ'' @ ''abcdefghijklmnopqrstuvwxyz''
     @ ''0123456789'' @ ''_.-~''"

definition hex_digit :: "nat \<Rightarrow> char" where
  "hex_digit n = ''0123456789ABCDEF'' ! n"

definition quote_byte :: "char \<Rightarrow> string" where
  "quote_byte c =
     (if c \<in> set always_safe \<or> c = CHR ''/'' then [c]
      else [CHR ''%'', hex_digit (of_char c div 16), hex_digit (of_char c mod 16)])"

definition quote :: "string \<Rightarrow> string" where
  "quote s = concat (map quote_byte s)"

definition constraint :: "scenario \<Rightarrow> int option \<Rightarrow> string" where
  "constraint sc lmt =
     (if sc = scenario1 then ''&sb-cdata='' @ quote (minify query)
      else if sc = scenario2 then ''&limit='' @ format_limit lmt
      else '''')"

definition url :: string where
  "url = ''https://ssd-api.jpl.nasa.gov/sbdb_query.api''"

definition fields :: string where
  "fields = ''full-prec=true&fields=e,a,i,om,w,ma,epoch,H,albedo,diameter,class,full_name''"

definition request_url :: "scenario \<Rightarrow> int option \<Rightarrow> string" where
  "request_url sc lmt = url @ ''?'' @ fields @ constraint sc lmt @ ''&sb-kind=a''"

text \<open>The request, the status check, and the rows written by the second writer, whose
  line terminator is \<^verbatim>\<open>",," + os.linesep\<close>.\<close>

definition small_bodies :: "env \<Rightarrow> scenario \<Rightarrow> int option \<Rightarrow> event list \<times> (error + row list)" where
  "small_bodies en sc lmt =
     (let u = request_url sc lmt; req = http_get en u in
      if status_code req \<noteq> 200
      then ([HttpGet u],
            Inl (RuntimeError (''Error '' @ str_int (status_code req)
              @ '' performing request. For more information see ''
              @ ''https://ssd-api.jpl.nasa.gov/doc/sbdb_query.html#http-response-codes.'')))
      else (case data req of
              None \<Rightarrow> ([HttpGet u], Inl MalformedResponse)
            | Some rows \<Rightarrow>
                (HttpGet u # map (\<lambda>r. WriteRow r ('',,'' @ linesep en)) rows
                   @ [PrintElapsed ''NASA JPL Small Body Database''],
                 Inr rows)))"

section \<open>Statistics\<close>

text \<open>The dictionary \<^verbatim>\<open>orbit_classes\<close>: code, label and counter, in insertion order.\<close>

type_synonym tally = "(string \<times> string \<times> int) list"

definition orbit_classes :: tally where
  \<open>orbit_classes =
    [(''PLA'', ''Planets'', 0),
     (''DWA'', ''Dwarf Planets'', 0),
     (''SAT'', ''Moons'', 0),
     (''IEO'', ''Atira'', 0),
     (''ATE'', ''Aten'', 0),
     (''APO'', ''Apollo'', 0),
     (''AMO'', ''Amor'', 0),
     (''MCA'', ''Mars-crossing Asteroid'', 0),
     (''IMB'', ''Inner Main-belt Asteroid'', 0),
     (''MBA'', ''Main-belt Asteroid'', 0),
     (''OMB'', ''Outer Main-belt Asteroid'', 0),
     (''TJN'', ''Jupiter Trojan'', 0),
     (''AST'', ''Asteroid'', 0),
     (''CEN'', ''Centaur'', 0),
     (''TNO'', ''TransNeptunian Object'', 0),
     (''PAA'', ''Parabolic "Asteroid"'', 0),
     (''HYA'', ''Hyperbolic "Asteroid"'', 0)]\<close>

text \<open>\<^verbatim>\<open>orbit_classes[code][1] += 1\<close> on a code that is a key.\<close>

fun increment :: "tally \<Rightarrow> string \<Rightarrow> tally" where
  "increment [] code = []"
| "increment ((k, l, n) # rest) code =
     (if k = code then (k, l, n + 1) # rest else (k, l, n) # increment rest code)"

text \<open>One iteration of a counting loop: \<^verbatim>\<open>r[10]\<close> raises IndexError on a short row, and
  the dictionary lookup raises KeyError on anything that is not one of its keys.\<close>

definition count_row :: "tally \<Rightarrow> row \<Rightarrow> error + tally" where
  "count_row oc r =
     (if length r \<le> 10 then Inl IndexError
      else (case r ! 10 of
              CStr code \<Rightarrow>
                if code \<in> set (map fst oc) then Inr (increment oc code)
                else Inl (KeyError (CStr code))
            | other \<Rightarrow> Inl (KeyError other)))"

fun count_rows :: "tally \<Rightarrow> row list \<Rightarrow> error + tally" where
  "count_rows oc [] = Inr oc"
| "count_rows oc (r # rs) =
     (case count_row oc r of Inl err \<Rightarrow> Inl err | Inr oc' \<Rightarrow> count_rows oc' rs)"

definition statistics :: "scenario \<Rightarrow> row list \<Rightarrow> row list \<Rightarrow> error + tally" where
  "statistics sc jpl_horizons_data jpl_sb_data =
     (case count_rows orbit_classes jpl_horizons_data of
        Inl err \<Rightarrow> Inl err
      | Inr oc \<Rightarrow> if sc \<noteq> planets_and_moons then count_rows oc jpl_sb_data else Inr oc)"

definition table :: "tally \<Rightarrow> (string \<times> int) list" where
  "table oc = map (\<lambda>(code, label, n). (code @ '' ('' @ label @ '')'', n)) oc"

text \<open>The summing loop, with \<^verbatim>\<open>total_number_of_bodies\<close> as its accumulator.\<close>

fun sum_counters :: "int \<Rightarrow> tally \<Rightarrow> int" where
  "sum_counters acc [] = acc"
| "sum_counters acc ((k, l, n) # rest) = sum_counters (acc + n) rest"

definition total_number_of_bodies :: "tally \<Rightarrow> int" where
  "total_number_of_bodies oc = sum_counters 0 oc"

definition total_line :: "int \<Rightarrow> string" where
  "total_line t = ''Total number of bodies is '' @ str_int t
     @ '' + 1 (Sun) = '' @ str_int (t + 1) @ ''.''"

definition report :: "tally \<Rightarrow> event list" where
  "report oc = [Print '''', PrintTable (table oc), Print '''',
                Print (total_line (total_number_of_bodies oc))]"

section \<open>The whole run\<close>

definition generating :: "args \<Rightarrow> string" where
  \<open>generating ar = ''Generating "'' @ outfile ar @ ''" file for the "''
     @ scenario_name (scenario ar) @ ''" scenario.''\<close>

definition run :: "env \<Rightarrow> args \<Rightarrow> event list \<times> (error + unit)" where
  "run en ar =
     (case sanity_check ar of
        Inl err \<Rightarrow> ([], Inl err)
      | Inr _ \<Rightarrow>
          let t0 = [Print (generating ar), OpenFile (outfile ar), WriteRow header (linesep en)] in
          (case query_horizons en major_bodies_dict [] of
             (t1, Inl err) \<Rightarrow> (t0 @ t1, Inl err)
           | (t1, Inr jpl_horizons_data) \<Rightarrow>
               let t2 = t0 @ t1 @ map (\<lambda>r. WriteRow r (linesep en)) jpl_horizons_data
                          @ [PrintElapsed ''NASA Horizons Database''] in
               (case adjust_limit (limit ar) (length jpl_horizons_data) of
                  Inl err \<Rightarrow> (t2, Inl err)
                | Inr lmt \<Rightarrow>
                    (case (if scenario ar \<noteq> planets_and_moons
                           then small_bodies en (scenario ar) lmt else ([], Inr [])) of
                       (t3, Inl err) \<Rightarrow> (t2 @ t3, Inl err)
                     | (t3, Inr jpl_sb_data) \<Rightarrow>
                         (case statistics (scenario ar) jpl_horizons_data jpl_sb_data of
                            Inl err \<Rightarrow> (t2 @ t3, Inl err)
                          | Inr oc \<Rightarrow> (t2 @ t3 @ report oc, Inr ()))))))"

section \<open>Notions used in the statements\<close>

text \<open>Every Horizons query of the run is answered.\<close>

definition horizons_ok :: "env \<Rightarrow> bool" where
  "horizons_ok en =
     list_all (\<lambda>(k, b). horizons_elements en k (location_query b) \<noteq> None) major_bodies_dict"

text \<open>The rows built from the answers, and the queries sent, for a list of catalog
  entries.\<close>

definition horizons_rows :: "env \<Rightarrow> (body_id \<times> Body) list \<Rightarrow> row list" where
  "horizons_rows en cat =
     map (\<lambda>(k, b). major_row (the (horizons_elements en k (location_query b))) b) cat"

definition horizons_queries :: "(body_id \<times> Body) list \<Rightarrow> event list" where
  "horizons_queries cat = map (\<lambda>(k, b). HorizonsQuery k (location_query b)) cat"

text \<open>The trace of a run up to and including the first timing line.\<close>

definition major_trace :: "env \<Rightarrow> args \<Rightarrow> event list" where
  "major_trace en ar =
     [Print (generating ar), OpenFile (outfile ar), WriteRow header (linesep en)]
     @ horizons_queries major_bodies_dict
     @ map (\<lambda>r. WriteRow r (linesep en)) (horizons_rows en major_bodies_dict)
     @ [PrintElapsed ''NASA Horizons Database'']"

text \<open>The rows of the file below the header.\<close>

definition data_rows :: "event list \<Rightarrow> (row \<times> string) list" where
  "data_rows tr = drop 1 (written tr)"

text \<open>The value of a counter of the tally (of the first entry with that code, as the
  codes are distinct).\<close>

fun counter :: "tally \<Rightarrow> string \<Rightarrow> int" where
  "counter [] c = 0"
| "counter ((k, l, n) # rest) c = (if k = c then n else counter rest c)"

text \<open>A record bears the code \<open>c\<close>; a record bears one of the codes of the tally.\<close>

definition has_class :: "string \<Rightarrow> row \<Rightarrow> bool" where
  "has_class c r = (10 < length r \<and> r ! 10 = CStr c)"

definition known_class :: "tally \<Rightarrow> row \<Rightarrow> bool" where
  "known_class oc r =
     (10 < length r \<and> (case r ! 10 of CStr c \<Rightarrow> c \<in> set (map fst oc) | _ \<Rightarrow> False))"

text \<open>The records that the statistics count.\<close>

definition produced :: "scenario \<Rightarrow> row list \<Rightarrow> row list \<Rightarrow> row list" where
  "produced sc jpl_horizons_data jpl_sb_data =
     jpl_horizons_data @ (if sc \<noteq> planets_and_moons then jpl_sb_data else [])"

text \<open>Python's \<^verbatim>\<open>LookupError\<close> is the base class of \<^verbatim>\<open>KeyError\<close> and \<^verbatim>\<open>IndexError\<close>.\<close>

fun is_lookup_error :: "error \<Rightarrow> bool" where
  "is_lookup_error (KeyError _) = True"
| "is_lookup_error IndexError = True"
| "is_lookup_error _ = False"

fun is_http_get :: "event \<Rightarrow> bool" where
  "is_http_get (HttpGet _) = True"
| "is_http_get _ = False"

subsection \<open>Concrete inputs\<close>

definition eph0 :: eph where
  "eph0 = \<lparr>eph_e = 0, eph_a = 1, eph_incl = 0, eph_Omega = 0, eph_w = 0, eph_M = 0,
            eph_datetime_jd = 2451544.5\<rparr>"

definition sb_row0 :: row where
  "sb_row0 = map CStr [''0.0785'', ''2.77'', ''10.6'', ''80.3'', ''73.5'', ''60.1'',
     ''2458600.5'', ''3.53'', ''0.09'', ''939.4'', ''MBA'', ''     1 Ceres (A801 AA)'']"

text \<open>A Linux platform on which both services answer, the small-body database with one
  row; and the same platform with the small-body database out of service.\<close>

definition env0 :: env where
  "env0 = \<lparr>linesep = [newline], horizons_elements = (\<lambda>k l. Some eph0),
           http_get = (\<lambda>u. \<lparr>status_code = 200, data = Some [sb_row0]\<rparr>)\<rparr>"

definition env503 :: env where
  "env503 = \<lparr>linesep = [newline], horizons_elements = (\<lambda>k l. Some eph0),
             http_get = (\<lambda>u. \<lparr>status_code = 503, data = None\<rparr>)\<rparr>"

section \<open>The catalog\<close>

lemma Body_sel [simp]:
  "name (Body n oc cb m) = n" "orbit_class (Body n oc cb m) = oc"
  "central_body (Body n oc cb m) = cb" "mass (Body n oc cb m) = m"
  by (simp_all add: Body_def)

lemma length_major_bodies_dict: "length major_bodies_dict = 177"
  by (simp add: major_bodies_dict_def)

lemma catalog_classes:
  "list_all (\<lambda>(k, b). orbit_class b \<in> {''PLA'', ''DWA'', ''SAT''}) major_bodies_dict"
  by (simp add: major_bodies_dict_def)

lemma catalog_planets: "length (filter (\<lambda>(k, b). orbit_class b = ''PLA'') major_bodies_dict) = 8"
  by (simp add: major_bodies_dict_def)
lemma catalog_dwarfs: "length (filter (\<lambda>(k, b). orbit_class b = ''DWA'') major_bodies_dict) = 10"
  by (simp add: major_bodies_dict_def)
lemma catalog_moons: "length (filter (\<lambda>(k, b). orbit_class b = ''SAT'') major_bodies_dict) = 159"
  by (simp add: major_bodies_dict_def)
lemma catalog_central: "list_all (\<lambda>(k, b). central_body b \<noteq> '''') major_bodies_dict"
  by (simp add: major_bodies_dict_def)
lemma catalog_distinct: "distinct (map fst major_bodies_dict)"
  by (simp add: major_bodies_dict_def)

section \<open>The loops\<close>

lemma query_horizons_ok:
  "list_all (\<lambda>(k, b). horizons_elements en k (location_query b) \<noteq> None) cat \<Longrightarrow>
   query_horizons en cat acc = (horizons_queries cat, Inr (acc @ horizons_rows en cat))"
  by (induction cat arbitrary: acc) (auto simp: horizons_queries_def horizons_rows_def)

lemma query_horizons_events:
  "query_horizons en cat acc = (evs, res) \<Longrightarrow> evs = horizons_queries (take (length evs) cat)"
proof (induction cat arbitrary: acc evs res)
  case Nil
  then show ?case by (simp add: horizons_queries_def)
next
  case (Cons kb cat)
  obtain k b where kb: "kb = (k, b)" by (cases kb)
  show ?case
  proof (cases "horizons_elements en k (location_query b)")
    case None
    with Cons.prems kb show ?thesis by (auto simp: horizons_queries_def)
  next
    case (Some ep)
    obtain evs' res' where q: "query_horizons en cat (acc @ [major_row ep b]) = (evs', res')"
      by (cases "query_horizons en cat (acc @ [major_row ep b])")
    from Cons.IH [OF q] have "evs' = horizons_queries (take (length evs') cat)" .
    with Cons.prems kb Some q show ?thesis
      by (auto simp: horizons_queries_def)
  qed
qed

lemma length_horizons_rows [simp]: "length (horizons_rows en cat) = length cat"
  by (simp add: horizons_rows_def)

lemma written_append [simp]: "written (xs @ ys) = written xs @ written ys"
  by (induction xs rule: written.induct) simp_all

lemma written_WriteRows [simp]: "written (map (\<lambda>r. WriteRow r lt) rs) = map (\<lambda>r. (r, lt)) rs"
  by (induction rs) simp_all

lemma written_horizons_queries [simp]: "written (horizons_queries cat) = []"
  by (induction cat) (auto simp: horizons_queries_def)

lemma keys_increment [simp]: "map fst (increment oc c) = map fst oc"
  by (induction oc c rule: increment.induct) auto

lemma counter_increment:
  "c \<in> set (map fst oc) \<Longrightarrow> counter (increment oc c) k = counter oc k + (if k = c then 1 else 0)"
proof (induction oc)
  case Nil
  then show ?case by simp
next
  case (Cons x oc)
  obtain k' l n where x: "x = (k', l, n)" by (cases x)
  show ?case
  proof (cases "k' = c")
    case True
    with x show ?thesis by simp
  next
    case False
    with Cons.prems x have "c \<in> set (map fst oc)" by simp
    from Cons.IH [OF this] False x show ?thesis by simp
  qed
qed

lemma sum_counters_acc: "sum_counters acc oc = acc + sum_list (map (\<lambda>(k, l, n). n) oc)"
proof (induction oc arbitrary: acc)
  case Nil
  show ?case by simp
next
  case (Cons x oc)
  obtain k l n where x: "x = (k, l, n)" by (cases x)
  from Cons.IH [of "acc + n"] x show ?case by simp
qed

lemma sum_increment:
  "c \<in> set (map fst oc) \<Longrightarrow>
   sum_list (map (\<lambda>(k, l, n). n) (increment oc c)) = sum_list (map (\<lambda>(k, l, n). n) oc) + 1"
proof (induction oc)
  case Nil
  then show ?case by simp
next
  case (Cons x oc)
  obtain k' l n where x: "x = (k', l, n)" by (cases x)
  show ?case
  proof (cases "k' = c")
    case True
    with x show ?thesis by simp
  next
    case False
    with Cons.prems x have "c \<in> set (map fst oc)" by simp
    from Cons.IH [OF this] False x show ?thesis by simp
  qed
qed

lemma count_row_Inr:
  "count_row oc r = Inr oc' \<longleftrightarrow> (\<exists>c. has_class c r \<and> c \<in> set (map fst oc) \<and> oc' = increment oc c)"
  by (auto simp: count_row_def has_class_def split: cell.splits if_splits)

lemma count_row_known: "(\<exists>oc'. count_row oc r = Inr oc') \<longleftrightarrow> known_class oc r"
  by (auto simp: count_row_def known_class_def split: cell.splits if_splits)

lemma count_row_keys: "count_row oc r = Inr oc' \<Longrightarrow> map fst oc' = map fst oc"
  by (auto simp: count_row_Inr)

lemma known_class_keys: "map fst oc' = map fst oc \<Longrightarrow> known_class oc' r = known_class oc r"
  by (simp add: known_class_def split: cell.splits)

lemma count_rows_Cons_Inr:
  "count_rows oc (r # rs) = Inr oc' \<longleftrightarrow>
   (\<exists>oc1. count_row oc r = Inr oc1 \<and> count_rows oc1 rs = Inr oc')"
  by (cases "count_row oc r") simp_all

lemma count_rows_known:
  "(\<exists>oc'. count_rows oc rs = Inr oc') \<longleftrightarrow> list_all (known_class oc) rs"
proof (induction rs arbitrary: oc)
  case Nil
  show ?case by simp
next
  case (Cons r rs)
  show ?case
  proof (cases "count_row oc r")
    case (Inl err)
    then have "\<not> known_class oc r" using count_row_known [of oc r] by simp
    with Inl show ?thesis by simp
  next
    case (Inr oc1)
    then have k: "known_class oc r" using count_row_known [of oc r] by blast
    from Inr have "map fst oc1 = map fst oc" by (rule count_row_keys)
    then have "known_class oc1 = known_class oc" by (intro ext known_class_keys)
    then have "list_all (known_class oc1) rs = list_all (known_class oc) rs" by simp
    with Cons.IH [of oc1] Inr k show ?thesis by simp
  qed
qed

lemma count_rows_keys: "count_rows oc rs = Inr oc' \<Longrightarrow> map fst oc' = map fst oc"
proof (induction rs arbitrary: oc)
  case Nil
  then show ?case by simp
next
  case (Cons r rs)
  from Cons.prems obtain oc1 where r: "count_row oc r = Inr oc1" and rs: "count_rows oc1 rs = Inr oc'"
    unfolding count_rows_Cons_Inr by blast
  from Cons.IH [OF rs] count_row_keys [OF r] show ?case by simp
qed

lemma count_rows_counter:
  "count_rows oc rs = Inr oc' \<Longrightarrow>
   counter oc' k = counter oc k + int (length (filter (has_class k) rs))"
proof (induction rs arbitrary: oc)
  case Nil
  then show ?case by simp
next
  case (Cons r rs)
  from Cons.prems obtain oc1 where r: "count_row oc r = Inr oc1" and rs: "count_rows oc1 rs = Inr oc'"
    unfolding count_rows_Cons_Inr by blast
  from r obtain c where c: "has_class c r" "c \<in> set (map fst oc)" "oc1 = increment oc c"
    unfolding count_row_Inr by blast
  from c(1) have "has_class k r \<longleftrightarrow> k = c" by (auto simp: has_class_def)
  with Cons.IH [OF rs] c(2,3) show ?case by (simp add: counter_increment)
qed

lemma count_rows_sum:
  "count_rows oc rs = Inr oc' \<Longrightarrow>
   sum_list (map (\<lambda>(k, l, n). n) oc') = sum_list (map (\<lambda>(k, l, n). n) oc) + int (length rs)"
proof (induction rs arbitrary: oc)
  case Nil
  then show ?case by simp
next
  case (Cons r rs)
  from Cons.prems obtain oc1 where r: "count_row oc r = Inr oc1" and rs: "count_rows oc1 rs = Inr oc'"
    unfolding count_rows_Cons_Inr by blast
  from r obtain c where c: "c \<in> set (map fst oc)" "oc1 = increment oc c"
    unfolding count_row_Inr by blast
  from Cons.IH [OF rs] sum_increment [OF c(1)] c(2) show ?case by simp
qed

lemma count_rows_append:
  "count_rows oc (xs @ ys) = (case count_rows oc xs of Inl err \<Rightarrow> Inl err | Inr oc1 \<Rightarrow> count_rows oc1 ys)"
proof (induction xs arbitrary: oc)
  case Nil
  show ?case by simp
next
  case (Cons x xs)
  show ?case by (cases "count_row oc x") (simp_all add: Cons.IH)
qed

lemma statistics_produced: "statistics sc hs ss = count_rows orbit_classes (produced sc hs ss)"
  by (cases "count_rows orbit_classes hs") (simp_all add: statistics_def produced_def count_rows_append)

section \<open>The run after the major bodies\<close>

lemma run_after_major:
  assumes "sanity_check ar = Inr ()" and "horizons_ok en"
  shows "run en ar =
    (case adjust_limit (limit ar) (length major_bodies_dict) of
       Inl err \<Rightarrow> (major_trace en ar, Inl err)
     | Inr lmt \<Rightarrow>
         (case (if scenario ar \<noteq> planets_and_moons
                then small_bodies en (scenario ar) lmt else ([], Inr [])) of
            (t3, Inl err) \<Rightarrow> (major_trace en ar @ t3, Inl err)
          | (t3, Inr jpl_sb_data) \<Rightarrow>
              (case statistics (scenario ar) (horizons_rows en major_bodies_dict) jpl_sb_data of
                 Inl err \<Rightarrow> (major_trace en ar @ t3, Inl err)
               | Inr oc \<Rightarrow> (major_trace en ar @ t3 @ report oc, Inr ()))))"
proof -
  from assms(2) have q: "query_horizons en major_bodies_dict [] =
      (horizons_queries major_bodies_dict, Inr (horizons_rows en major_bodies_dict))"
    using query_horizons_ok [of en major_bodies_dict "[]"] by (simp add: horizons_ok_def)
  show ?thesis
    unfolding run_def assms(1) q
    by (simp add: Let_def major_trace_def split: sum.splits prod.splits)
qed

lemma run_sanity_error:
  "sanity_check ar = Inl err \<Longrightarrow> run en ar = ([], Inl err)"
  by (simp add: run_def)

lemma written_major_trace:
  "written (major_trace en ar) =
     (header, linesep en) # map (\<lambda>r. (r, linesep en)) (horizons_rows en major_bodies_dict)"
  by (simp add: major_trace_def)

lemma network_major_trace:
  "filter is_network (major_trace en ar) = horizons_queries major_bodies_dict"
  by (simp add: major_trace_def horizons_queries_def filter_map comp_def case_prod_beta)

lemma http_major_trace: "filter is_http_get (major_trace en ar) = []"
  by (simp add: major_trace_def horizons_queries_def filter_map comp_def case_prod_beta)

lemma orbit_classes_keys:
  "map fst orbit_classes = [''PLA'', ''DWA'', ''SAT'', ''IEO'', ''ATE'', ''APO'', ''AMO'', ''MCA'',
     ''IMB'', ''MBA'', ''OMB'', ''TJN'', ''AST'', ''CEN'', ''TNO'', ''PAA'', ''HYA'']"
  by (simp add: orbit_classes_def)

lemma orbit_classes_sum: "sum_list (map (\<lambda>(k, l, n). n) orbit_classes) = 0"
  by (simp add: orbit_classes_def)

lemma counter_zero: "list_all (\<lambda>(k, l, n). n = 0) oc \<Longrightarrow> counter oc c = 0"
  by (induction oc c rule: counter.induct) auto

lemma orbit_classes_zero: "list_all (\<lambda>(k, l, n). n = 0) orbit_classes"
  by (simp add: orbit_classes_def)

lemma major_row_class [simp]: "major_row ep b ! 10 = CStr (orbit_class b)"
  by (simp add: major_row_def)

lemma length_major_row [simp]: "length (major_row ep b) = 14"
  by (simp add: major_row_def)

lemma horizons_rows_known:
  "list_all (known_class orbit_classes) (horizons_rows en major_bodies_dict)"
proof -
  have "known_class orbit_classes (major_row ep b)"
    if "orbit_class b \<in> {''PLA'', ''DWA'', ''SAT''}" for ep b
    using that by (auto simp: known_class_def orbit_classes_keys)
  with catalog_classes show ?thesis
    by (auto simp: list_all_iff horizons_rows_def)
qed

lemma statistics_major_only:
  "\<exists>oc. statistics planets_and_moons (horizons_rows en major_bodies_dict) [] = Inr oc
     \<and> total_number_of_bodies oc = 177 \<and> map fst oc = map fst orbit_classes"
proof -
  from horizons_rows_known [of en] obtain oc
    where oc: "count_rows orbit_classes (horizons_rows en major_bodies_dict) = Inr oc"
    using count_rows_known [of orbit_classes "horizons_rows en major_bodies_dict"] by blast
  from count_rows_sum [OF oc] have "sum_list (map (\<lambda>(k, l, n). n) oc) = 177"
    by (simp add: orbit_classes_sum length_major_bodies_dict)
  then have "total_number_of_bodies oc = 177"
    by (simp add: total_number_of_bodies_def sum_counters_acc)
  with oc count_rows_keys [OF oc] show ?thesis
    by (simp add: statistics_produced produced_def)
qed

lemma str_int_177: "str_int 177 = ''177''" "str_int 178 = ''178''"
  by (simp_all add: str_int_def str_nat.simps)

lemma pm_sanity:
  "scenario ar = planets_and_moons \<Longrightarrow> limit ar = None \<Longrightarrow> sanity_check ar = Inr ()"
  by (simp add: sanity_check_def)

lemma pm_run:
  assumes "horizons_ok en" and "scenario ar = planets_and_moons" and "limit ar = None"
  shows "\<exists>oc. run en ar = (major_trace en ar @ report oc, Inr ())
           \<and> total_number_of_bodies oc = 177 \<and> map fst oc = map fst orbit_classes"
proof -
  from statistics_major_only [of en] obtain oc
    where oc: "statistics planets_and_moons (horizons_rows en major_bodies_dict) [] = Inr oc"
      "total_number_of_bodies oc = 177" "map fst oc = map fst orbit_classes"
    by blast
  have "run en ar = (major_trace en ar @ report oc, Inr ())"
    using run_after_major [OF pm_sanity [OF assms(2,3)] assms(1)] assms(2,3) oc(1)
    by (simp add: adjust_limit_def)
  with oc(2,3) show ?thesis by blast
qed

lemma written_report [simp]: "written (report oc) = []"
  by (simp add: report_def)

lemma last_report: "last (xs @ report oc) = Print (total_line (total_number_of_bodies oc))"
  by (simp add: report_def)

lemma pm_data_rows:
  assumes "horizons_ok en" and "scenario ar = planets_and_moons" and "limit ar = None"
  shows "data_rows (fst (run en ar)) = map (\<lambda>r. (r, linesep en)) (horizons_rows en major_bodies_dict)"
proof -
  from pm_run [OF assms] obtain oc where "run en ar = (major_trace en ar @ report oc, Inr ())"
    by blast
  then show ?thesis by (simp add: data_rows_def written_major_trace)
qed

lemma pm_total_line:
  assumes "horizons_ok en" and "scenario ar = planets_and_moons" and "limit ar = None"
  shows "last (fst (run en ar)) = Print ''Total number of bodies is 177 + 1 (Sun) = 178.''"
proof -
  from pm_run [OF assms] obtain oc where "run en ar = (major_trace en ar @ report oc, Inr ())"
    and "total_number_of_bodies oc = 177"
    by blast
  then show ?thesis by (simp add: last_report total_line_def str_int_177)
qed

lemma horizons_ok_env0: "horizons_ok env0"
  by (simp add: horizons_ok_def env0_def list_all_iff)

lemma horizons_ok_env503: "horizons_ok env503"
  by (simp add: horizons_ok_def env503_def list_all_iff)

section \<open>The claims\<close>

text \<open>
  C3 (as stated).  The claim reads: on the built-in catalog the scenario
  \<^verbatim>\<open>planets_and_moons\<close> produces exactly 171 data rows.  On a platform where every
  Horizons query is answered the file has 177 rows below the header, not 171.
\<close>

theorem planets_and_moons_171_rows_counterexample:
  "length (data_rows (fst (run env0 \<lparr>outfile = ''out.csv'', scenario = planets_and_moons, limit = None\<rparr>)))
     \<noteq> 171"
proof -
  have "data_rows (fst (run env0 \<lparr>outfile = ''out.csv'', scenario = planets_and_moons, limit = None\<rparr>))
      = map (\<lambda>r. (r, linesep env0)) (horizons_rows env0 major_bodies_dict)"
    by (rule pm_data_rows) (simp_all add: horizons_ok_env0)
  then show ?thesis by (simp add: length_major_bodies_dict)
qed

text \<open>
  C3 (amended).  The built-in catalog has 177 bodies: 8 planets, 10 dwarf planets and 159
  moons.  When every Horizons query is answered, the scenario \<^verbatim>\<open>planets_and_moons\<close>
  (without a limit) ends without error, writes exactly 177 data rows, every one of class
  PLA, DWA or SAT, and its last printed line is
  \<^verbatim>\<open>Total number of bodies is 177 + 1 (Sun) = 178.\<close>
\<close>

theorem planets_and_moons_177_rows:
  assumes "horizons_ok en" and "scenario ar = planets_and_moons" and "limit ar = None"
  shows "snd (run en ar) = Inr ()
    \<and> length (data_rows (fst (run en ar))) = 177
    \<and> last (fst (run en ar)) = Print ''Total number of bodies is 177 + 1 (Sun) = 178.''
    \<and> list_all (\<lambda>(r, lt). r ! 10 \<in> {CStr ''PLA'', CStr ''DWA'', CStr ''SAT''})
          (data_rows (fst (run en ar)))
    \<and> length (filter (\<lambda>(k, b). orbit_class b = ''PLA'') major_bodies_dict) = 8
    \<and> length (filter (\<lambda>(k, b). orbit_class b = ''DWA'') major_bodies_dict) = 10
    \<and> length (filter (\<lambda>(k, b). orbit_class b = ''SAT'') major_bodies_dict) = 159"
proof -
  from pm_run [OF assms] have ok: "snd (run en ar) = Inr ()" by auto
  note rows = pm_data_rows [OF assms]
  have len: "length (data_rows (fst (run en ar))) = 177"
    by (simp add: rows length_major_bodies_dict)
  have cls: "list_all (\<lambda>(r, lt). r ! 10 \<in> {CStr ''PLA'', CStr ''DWA'', CStr ''SAT''})
          (data_rows (fst (run en ar)))"
    using catalog_classes by (auto simp: rows list_all_iff horizons_rows_def)
  from ok len pm_total_line [OF assms] cls catalog_planets catalog_dwarfs catalog_moons
  show ?thesis by simp
qed

theorem planets_and_moons_177_rows_witness:
  "horizons_ok env0
   \<and> snd (run env0 \<lparr>outfile = ''out.csv'', scenario = planets_and_moons, limit = None\<rparr>) = Inr ()
   \<and> length (data_rows (fst (run env0 \<lparr>outfile = ''out.csv'', scenario = planets_and_moons, limit = None\<rparr>))) = 177
   \<and> last (fst (run env0 \<lparr>outfile = ''out.csv'', scenario = planets_and_moons, limit = None\<rparr>))
       = Print ''Total number of bodies is 177 + 1 (Sun) = 178.''"
  using planets_and_moons_177_rows [of env0 "\<lparr>outfile = ''out.csv'', scenario = planets_and_moons, limit = None\<rparr>"]
  by (simp add: horizons_ok_env0)

end
